theory Spec2Isabelle
  imports Main
begin

section \<open>JavaScript string helpers used by the sources\<close>

text \<open>
  Keys are JavaScript strings; they are modelled as \<open>string\<close>. The helpers below are the
  \<open>String.prototype\<close> methods the sources call, restricted to the way they are called
  (a one-character separator for \<open>split\<close>, a string pattern for \<open>replace\<close>).
\<close>

definition startsWith :: "string \<Rightarrow> string \<Rightarrow> bool" where
  "startsWith s p = (take (length p) s = p)"

definition endsWith :: "string \<Rightarrow> string \<Rightarrow> bool" where
  "endsWith s p = (length p \<le> length s \<and> drop (length s - length p) s = p)"

text \<open>\<open>s.split(c)\<close> for a one-character separator: never empty, \<open>''''.split(c) = ['''']\<close>.\<close>

fun js_split :: "char \<Rightarrow> string \<Rightarrow> string list" where
  "js_split c [] = [[]]"
| "js_split c (x # xs) =
     (if x = c then [] # js_split c xs
      else (case js_split c xs of
              [] \<Rightarrow> [[x]]
            | p # ps \<Rightarrow> (x # p) # ps))"

text \<open>
  \<open>s.replace(pat, rep)\<close> with a string pattern: only the first occurrence is replaced, and
  the replacement string is expanded first. With a string pattern there are no capture
  groups, so the patterns that expand are \<open>$$\<close> (a dollar sign), \<open>$&\<close> (the matched text),
  the dollar sign followed by a backtick (the text before the match) and the dollar sign
  followed by an apostrophe (the text after the match); any other \<open>$\<close> stays as it is.
\<close>

fun expand_replacement :: "string \<Rightarrow> string \<Rightarrow> string \<Rightarrow> string \<Rightarrow> string" where
  "expand_replacement [] matched pre post = []"
| "expand_replacement [c] matched pre post = [c]"
| "expand_replacement (c # d # rest) matched pre post =
     (if c = CHR ''$'' then
        (if d = CHR ''$'' then CHR ''$'' # expand_replacement rest matched pre post
         else if d = CHR ''&'' then matched @ expand_replacement rest matched pre post
         else if d = CHR 0x60 then pre @ expand_replacement rest matched pre post
         else if d = CHR 0x27 then post @ expand_replacement rest matched pre post
         else c # expand_replacement (d # rest) matched pre post)
      else c # expand_replacement (d # rest) matched pre post)"

fun replace_first :: "string \<Rightarrow> string \<Rightarrow> string \<Rightarrow> string \<Rightarrow> string" where
  "replace_first pre [] pat rep =
     (if pat = [] then pre @ expand_replacement rep [] pre [] else pre)"
| "replace_first pre (c # cs) pat rep =
     (if startsWith (c # cs) pat
      then pre @ expand_replacement rep pat pre (drop (length pat) (c # cs))
             @ drop (length pat) (c # cs)
      else replace_first (pre @ [c]) cs pat rep)"

definition js_replace :: "string \<Rightarrow> string \<Rightarrow> string \<Rightarrow> string" where
  "js_replace s pat rep = replace_first [] s pat rep"

section \<open>Result envelope (lib/responses/operation-result.ts, s3-responses.ts)\<close>

text \<open>
  Values that can be thrown and end up in the \<open>error\<close> field: an \<open>S3ServiceException\<close>
  (carrying its \<open>name\<close>) or any other \<open>Error\<close> (carrying its \<open>message\<close>).
\<close>

datatype ResultErrorType = S3ServiceException string | Error string

record 'a OperationResult =
  data :: "'a option"
  error :: "ResultErrorType option"
  message :: "string option"
  success :: bool

definition Success :: "'a \<Rightarrow> 'a OperationResult" where
  "Success d = \<lparr>data = Some d, error = None, message = None, success = True\<rparr>"

definition Failure :: "string \<Rightarrow> ResultErrorType option \<Rightarrow> 'a OperationResult" where
  "Failure msg err = \<lparr>data = None, error = err, message = Some msg, success = False\<rparr>"

definition ConvertFailure :: "'a OperationResult \<Rightarrow> 'b OperationResult" where
  "ConvertFailure failureResult =
     \<lparr>data = None, error = error failureResult, message = message failureResult,
      success = False\<rparr>"

text \<open>A result object is an object, hence truthy: \<open>!response\<close> is \<open>false\<close> for every result.\<close>

definition truthy :: "'a OperationResult \<Rightarrow> bool" where
  "truthy response = True"

definition FileNameExists :: "string OperationResult" where
  "FileNameExists =
     Failure ''Object already exists. Please choose a different name.''
       (Some (Error ''Object already exists. Please choose a different name.''))"

definition DestinationKeyExist :: "bool OperationResult" where
  "DestinationKeyExist =
     Failure ''Destination key already exists, copy operation aborted''
       (Some (Error ''Destination key already exists, copy operation aborted''))"

section \<open>The storage backend behind \<open>client.send\<close>\<close>

text \<open>
  The S3 client is an external collaborator. It is modelled as a bucket (an association
  list of key and body, kept in listing order), a log of the requests sent, and a fault
  table: \<open>faults w n\<close> is the error (transport, auth, service) thrown for the \<open>n\<close>-th request
  instead of executing it. A request that is not faulted is executed on the bucket:
  \<open>HeadObject\<close> of a missing key throws the service exception named \<open>NotFound\<close>,
  \<open>CopyObject\<close> overwrites the destination, \<open>DeleteObject\<close> succeeds whether or not the key
  exists, and \<open>ListObjectsV2\<close> returns at most \<open>max_keys\<close> entries per page together with a
  continuation token when more remain.
\<close>

datatype S3Command =
    HeadObjectCommand string
  | CopyObjectCommand string string
  | DeleteObjectCommand string
  | PutObjectCommand string
  | ListObjectsV2Command string "string option" "nat option"

record S3_Object =
  Key :: "string option"

record ListObjectsV2CommandOutput =
  Contents :: "S3_Object list option"
  CommonPrefixes :: "string option list option"
  Prefix :: "string option"
  NextContinuationToken :: "nat option"

datatype S3Output =
    HeadObjectOutput
  | CopyObjectOutput
  | DeleteObjectOutput
  | PutObjectOutput
  | ListObjectsV2Output ListObjectsV2CommandOutput

record world =
  objects :: "(string \<times> string) list"
  faults :: "nat \<Rightarrow> ResultErrorType option"
  requests :: "S3Command list"
  max_keys :: nat

definition has_key :: "world \<Rightarrow> string \<Rightarrow> bool" where
  "has_key w k = (map_of (objects w) k \<noteq> None)"

definition put_object :: "string \<Rightarrow> string \<Rightarrow> (string \<times> string) list \<Rightarrow> (string \<times> string) list" where
  "put_object k body os =
     (if map_of os k = None then os @ [(k, body)]
      else map (\<lambda>(k', b). if k' = k then (k', body) else (k', b)) os)"

text \<open>The part of a key up to and including the first delimiter, if the delimiter occurs.\<close>

fun upto_delimiter :: "string \<Rightarrow> string \<Rightarrow> string option" where
  "upto_delimiter d [] = None"
| "upto_delimiter d (c # cs) =
     (if d \<noteq> [] \<and> startsWith (c # cs) d then Some d
      else map_option ((#) c) (upto_delimiter d cs))"

text \<open>One listing entry: a common prefix (\<open>Inl\<close>) or an object key (\<open>Inr\<close>).\<close>

definition list_entry :: "string \<Rightarrow> string option \<Rightarrow> string \<Rightarrow> string + string" where
  "list_entry prefix delimiter k =
     (case delimiter of
        None \<Rightarrow> Inr k
      | Some d \<Rightarrow>
          (case upto_delimiter d (drop (length prefix) k) of
             None \<Rightarrow> Inr k
           | Some g \<Rightarrow> Inl (prefix @ g)))"

definition list_entries :: "world \<Rightarrow> string \<Rightarrow> string option \<Rightarrow> (string + string) list" where
  "list_entries w prefix delimiter =
     remdups (map (list_entry prefix delimiter)
       (filter (\<lambda>k. startsWith k prefix) (map fst (objects w))))"

definition some_if_nonempty :: "'a list \<Rightarrow> 'a list option" where
  "some_if_nonempty xs = (if xs = [] then None else Some xs)"

definition list_page :: "world \<Rightarrow> string \<Rightarrow> string option \<Rightarrow> nat option \<Rightarrow> ListObjectsV2CommandOutput" where
  "list_page w prefix delimiter token =
     (let start = (case token of None \<Rightarrow> 0 | Some n \<Rightarrow> n);
          remaining = drop start (list_entries w prefix delimiter);
          page = take (max_keys w) remaining
      in \<lparr>Contents =
            some_if_nonempty (concat (map (\<lambda>e. case e of Inl g \<Rightarrow> [] | Inr k \<Rightarrow> [\<lparr>Key = Some k\<rparr>]) page)),
          CommonPrefixes =
            some_if_nonempty (concat (map (\<lambda>e. case e of Inl g \<Rightarrow> [Some g] | Inr k \<Rightarrow> []) page)),
          Prefix = Some prefix,
          NextContinuationToken =
            (if max_keys w < length remaining then Some (start + max_keys w) else None)\<rparr>)"

fun bucket_exec :: "S3Command \<Rightarrow> world \<Rightarrow> (ResultErrorType + S3Output) \<times> world" where
  "bucket_exec (HeadObjectCommand k) w =
     (if has_key w k then (Inr HeadObjectOutput, w)
      else (Inl (S3ServiceException ''NotFound''), w))"
| "bucket_exec (CopyObjectCommand src dst) w =
     (case map_of (objects w) src of
        None \<Rightarrow> (Inl (S3ServiceException ''NoSuchKey''), w)
      | Some body \<Rightarrow> (Inr CopyObjectOutput, w\<lparr>objects := put_object dst body (objects w)\<rparr>))"
| "bucket_exec (DeleteObjectCommand k) w =
     (Inr DeleteObjectOutput, w\<lparr>objects := filter (\<lambda>(k', b). k' \<noteq> k) (objects w)\<rparr>)"
| "bucket_exec (PutObjectCommand k) w =
     (Inr PutObjectOutput, w\<lparr>objects := put_object k [] (objects w)\<rparr>)"
| "bucket_exec (ListObjectsV2Command prefix delimiter token) w =
     (Inr (ListObjectsV2Output (list_page w prefix delimiter token)), w)"

definition client_send :: "S3Command \<Rightarrow> world \<Rightarrow> (ResultErrorType + S3Output) \<times> world" where
  "client_send command w =
     (let w' = w\<lparr>requests := requests w @ [command]\<rparr>
      in case faults w (length (requests w)) of
           Some e \<Rightarrow> (Inl e, w')
         | None \<Rightarrow> bucket_exec command w')"

section \<open>Storage queries (lib/s3/s3-queries.ts)\<close>

definition checkIfObjectKeyExists :: "string \<Rightarrow> world \<Rightarrow> bool OperationResult \<times> world" where
  "checkIfObjectKeyExists k w =
     (case client_send (HeadObjectCommand k) w of
        (Inr out, w') \<Rightarrow> (Success True, w')
      | (Inl e, w') \<Rightarrow>
          (case e of
             S3ServiceException name \<Rightarrow>
               (if name = ''NotFound'' then (Success False, w')
                else (Failure ''Error checking if S3 object exists'' (Some e), w'))
           | Error msg \<Rightarrow> (Failure ''Error checking if S3 object exists'' (Some e), w')))"

definition listAllS3ObjectsInDirectory :: "string \<Rightarrow> world \<Rightarrow> S3_Object list OperationResult \<times> world" where
  "listAllS3ObjectsInDirectory rootKey w =
     (let prefix0 = (if rootKey = ''/'' then ''''
                     else if startsWith rootKey ''/'' then drop 1 rootKey
                     else rootKey);
          prefix = (if prefix0 \<noteq> '''' \<and> \<not> endsWith prefix0 ''/'' then prefix0 @ ''/'' else prefix0)
      in case client_send (ListObjectsV2Command prefix None None) w of
           (Inr (ListObjectsV2Output response), w') \<Rightarrow>
             (Success (case Contents response of Some cs \<Rightarrow> cs | None \<Rightarrow> []), w')
         | (Inr other, w') \<Rightarrow> (Success [], w')
         | (Inl e, w') \<Rightarrow> (Failure ''Error fetching S3 objects'' (Some e), w'))"

text \<open>
  \<open>listAllObjects\<close>, the lister of the same file that the sources mark as not in use. Its
  \<open>do ... while (continuationToken)\<close> loop runs as long as the backend keeps returning
  tokens, so it is given fuel: \<open>None\<close> means the fuel ran out before the loop ended.
\<close>

fun listAllObjects_loop ::
  "nat \<Rightarrow> string \<Rightarrow> nat option \<Rightarrow> string list \<Rightarrow> world \<Rightarrow> (string list OperationResult \<times> world) option" where
  "listAllObjects_loop 0 prefix continuationToken allKeys w = None"
| "listAllObjects_loop (Suc fuel) prefix continuationToken allKeys w =
     (case client_send (ListObjectsV2Command prefix None continuationToken) w of
        (Inl e, w') \<Rightarrow> Some (Failure ''Error fetching list of S3 objects'' (Some e), w')
      | (Inr (ListObjectsV2Output response), w') \<Rightarrow>
          (let keys = (case Contents response of
                         None \<Rightarrow> []
                       | Some cs \<Rightarrow> map (\<lambda>item. case Key item of Some k \<Rightarrow> k | None \<Rightarrow> '''') cs)
           in case NextContinuationToken response of
                Some t \<Rightarrow> listAllObjects_loop fuel prefix (Some t) (allKeys @ keys) w'
              | None \<Rightarrow> Some (Success (allKeys @ keys), w'))
      | (Inr other, w') \<Rightarrow> Some (Success allKeys, w'))"

definition listAllObjects :: "nat \<Rightarrow> string \<Rightarrow> world \<Rightarrow> (string list OperationResult \<times> world) option" where
  "listAllObjects fuel prefix w = listAllObjects_loop fuel prefix None [] w"

section \<open>Storage mutations (lib/s3/s3-commands.ts)\<close>

definition copyS3ObjectCommand :: "string \<Rightarrow> string \<Rightarrow> world \<Rightarrow> bool OperationResult \<times> world" where
  "copyS3ObjectCommand sourceKey destinationKey w =
     (case checkIfObjectKeyExists destinationKey w of
        (existOperationResult, w1) \<Rightarrow>
          if success existOperationResult \<and> data existOperationResult = Some True
          then (DestinationKeyExist, w1)
          else (case client_send (CopyObjectCommand sourceKey destinationKey) w1 of
                  (Inr out, w2) \<Rightarrow> (Success True, w2)
                | (Inl e, w2) \<Rightarrow> (Failure ''Error copying S3 object'' (Some e), w2)))"

definition deleteS3ObjectCommand :: "string \<Rightarrow> world \<Rightarrow> bool OperationResult \<times> world" where
  "deleteS3ObjectCommand k w =
     (case client_send (DeleteObjectCommand k) w of
        (Inr out, w') \<Rightarrow> (Success True, w')
      | (Inl e, w') \<Rightarrow> (Failure ''Error deleting S3 object'' (Some e), w'))"

definition moveS3ObjectCommand :: "string \<Rightarrow> string \<Rightarrow> world \<Rightarrow> bool OperationResult \<times> world" where
  "moveS3ObjectCommand sourceKey destinationKey w =
     (case copyS3ObjectCommand sourceKey destinationKey w of
        (copyResponse, w1) \<Rightarrow>
          if \<not> success copyResponse then (copyResponse, w1)
          else (case deleteS3ObjectCommand sourceKey w1 of
                  (deleteResponse, w2) \<Rightarrow>
                    if \<not> success deleteResponse then (deleteResponse, w2)
                    else (Success True, w2)))"

definition renameS3ObjectCommand :: "string \<Rightarrow> string \<Rightarrow> world \<Rightarrow> bool OperationResult \<times> world" where
  "renameS3ObjectCommand k destinationKey w = moveS3ObjectCommand k destinationKey w"

definition createS3FolderCommand :: "string \<Rightarrow> world \<Rightarrow> bool OperationResult \<times> world" where
  "createS3FolderCommand k w =
     (let k' = (if \<not> endsWith k ''/'' then k @ ''/'' else k)
      in case client_send (PutObjectCommand k') w of
           (Inr out, w') \<Rightarrow> (Success True, w')
         | (Inl e, w') \<Rightarrow> (Failure ''Error creating S3 object'' (Some e), w'))"

definition transformS3DirectoryKeys :: "string \<Rightarrow> string \<Rightarrow> string" where
  "transformS3DirectoryKeys currentObjectKey destinationKey =
     (let normalizedDestKey =
            (if endsWith destinationKey ''/'' then destinationKey else destinationKey @ ''/'');
          sourcePrefix = hd (js_split CHR ''/'' currentObjectKey) @ ''/''
      in js_replace currentObjectKey sourcePrefix normalizedDestKey)"

definition object_key :: "S3_Object \<Rightarrow> string" where
  "object_key obj = (case Key obj of Some k \<Rightarrow> k | None \<Rightarrow> '''')"

fun destination_exists_loop :: "S3_Object list \<Rightarrow> string \<Rightarrow> world \<Rightarrow> bool OperationResult \<times> world" where
  "destination_exists_loop [] destinationKey w = (Success False, w)"
| "destination_exists_loop (obj # rest) destinationKey w =
     (case checkIfObjectKeyExists
             (transformS3DirectoryKeys (object_key obj) destinationKey) w of
        (existOperationResult, w1) \<Rightarrow>
          if success existOperationResult \<and> data existOperationResult = Some True
          then (Success True, w1)
          else destination_exists_loop rest destinationKey w1)"

definition checkIfDestinationDirectoryExist :: "S3_Object list \<Rightarrow> string \<Rightarrow> world \<Rightarrow> bool OperationResult \<times> world" where
  "checkIfDestinationDirectoryExist objs destinationKey w =
     (if length objs = 0 then (Success False, w)
      else destination_exists_loop objs destinationKey w)"

text \<open>
  The \<open>for\<close> loops of the directory commands. The result is the error thrown out of the
  loop, if any: the only \<open>throw\<close> in the body is guarded by \<open>!response\<close>.
\<close>

fun copy_loop :: "S3_Object list \<Rightarrow> string \<Rightarrow> world \<Rightarrow> ResultErrorType option \<times> world" where
  "copy_loop [] destinationKey w = (None, w)"
| "copy_loop (obj # rest) destinationKey w =
     (case copyS3ObjectCommand (object_key obj)
             (transformS3DirectoryKeys (object_key obj) destinationKey) w of
        (response, w1) \<Rightarrow>
          if \<not> truthy response
          then (Some (Error ''Copy operation failed or returned no response''), w1)
          else copy_loop rest destinationKey w1)"

fun delete_loop :: "S3_Object list \<Rightarrow> world \<Rightarrow> ResultErrorType option \<times> world" where
  "delete_loop [] w = (None, w)"
| "delete_loop (obj # rest) w =
     (case deleteS3ObjectCommand (object_key obj) w of
        (response, w1) \<Rightarrow>
          if \<not> truthy response
          then (Some (Error ''Delete operation failed or returned no response''), w1)
          else delete_loop rest w1)"

definition copyS3DirectoryCommand :: "string \<Rightarrow> string \<Rightarrow> world \<Rightarrow> bool OperationResult \<times> world" where
  "copyS3DirectoryCommand sourceKey destinationKey w =
     (case listAllS3ObjectsInDirectory sourceKey w of
        (listOperationResult, w1) \<Rightarrow>
          (case data listOperationResult of
             None \<Rightarrow> (ConvertFailure listOperationResult, w1)
           | Some objs \<Rightarrow>
               if \<not> success listOperationResult then (ConvertFailure listOperationResult, w1)
               else (case checkIfDestinationDirectoryExist objs destinationKey w1 of
                       (existOperationResult, w2) \<Rightarrow>
                         if data existOperationResult = Some True then (DestinationKeyExist, w2)
                         else (case copy_loop objs destinationKey w2 of
                                 (None, w3) \<Rightarrow> (Success True, w3)
                               | (Some e, w3) \<Rightarrow>
                                   (Failure ''Error copying S3 directory'' (Some e), w3)))))"

definition deleteS3DirectoryCommand :: "string \<Rightarrow> world \<Rightarrow> bool OperationResult \<times> world" where
  "deleteS3DirectoryCommand k w =
     (case listAllS3ObjectsInDirectory k w of
        (listOperationResult, w1) \<Rightarrow>
          (case data listOperationResult of
             None \<Rightarrow> (ConvertFailure listOperationResult, w1)
           | Some objs \<Rightarrow>
               if \<not> success listOperationResult then (ConvertFailure listOperationResult, w1)
               else (case delete_loop objs w1 of
                       (None, w2) \<Rightarrow> (Success True, w2)
                     | (Some e, w2) \<Rightarrow> (Failure ''Error deleting S3 directory'' (Some e), w2))))"

definition moveS3DirectoryCommand :: "string \<Rightarrow> string \<Rightarrow> world \<Rightarrow> bool OperationResult \<times> world" where
  "moveS3DirectoryCommand sourceKey destinationKey w =
     (case copyS3DirectoryCommand sourceKey destinationKey w of
        (copyResponse, w1) \<Rightarrow>
          if \<not> success copyResponse then (copyResponse, w1)
          else (case deleteS3DirectoryCommand sourceKey w1 of
                  (deleteResponse, w2) \<Rightarrow>
                    if \<not> success deleteResponse then (deleteResponse, w2)
                    else (Success True, w2)))"

definition renameS3DirectoryCommand :: "string \<Rightarrow> string \<Rightarrow> world \<Rightarrow> bool OperationResult \<times> world" where
  "renameS3DirectoryCommand k newLocationName w = moveS3DirectoryCommand k newLocationName w"

section \<open>Signed read URLs (\<open>getSignedUrlCommand\<close>, lib/s3/s3-queries.ts)\<close>

text \<open>
  The module-level \<open>signedUrlCache\<close> is a map from key to the cached URL and its absolute
  expiry in milliseconds. Presigning is an external collaborator: \<open>signer st n key expiresIn\<close>
  is what the \<open>n\<close>-th call of \<open>getSignedUrl\<close> returns (\<open>Inr\<close> the URL) or throws (\<open>Inl\<close>);
  every call is recorded in \<open>sign_requests\<close>. \<open>Date.now()\<close> is the argument \<open>now\<close>
  (integer milliseconds); expiries are integer seconds. The configured default
  \<open>s3SignedUrlExpires\<close> (900 unless the environment overrides it) is a parameter.
\<close>

record signed_url =
  url :: string
  expiresAt :: int

record url_state =
  signedUrlCache :: "string \<Rightarrow> signed_url option"
  signer :: "nat \<Rightarrow> string \<Rightarrow> int \<Rightarrow> ResultErrorType + string"
  sign_requests :: "(string \<times> int) list"

definition cache_hit :: "url_state \<Rightarrow> string \<Rightarrow> int \<Rightarrow> int \<Rightarrow> bool" where
  "cache_hit st k now expiresIn =
     (case signedUrlCache st k of
        None \<Rightarrow> False
      | Some cached \<Rightarrow> expiresAt cached > now + expiresIn)"

definition getSignedUrlCommand ::
  "int \<Rightarrow> string \<Rightarrow> int option \<Rightarrow> int \<Rightarrow> url_state \<Rightarrow> string OperationResult \<times> url_state" where
  "getSignedUrlCommand s3SignedUrlExpires k expiresInSecond now st =
     (let expiresIn = (case expiresInSecond of Some e \<Rightarrow> e | None \<Rightarrow> s3SignedUrlExpires)
      in case (if cache_hit st k now expiresIn then signedUrlCache st k else None) of
           Some cached \<Rightarrow> (Success (url cached), st)
         | None \<Rightarrow>
             (case signer st (length (sign_requests st)) k expiresIn of
                Inr u \<Rightarrow>
                  (Success u,
                   st\<lparr>signedUrlCache :=
                        (signedUrlCache st)(k \<mapsto> \<lparr>url = u, expiresAt = now + expiresIn * 1000\<rparr>),
                      sign_requests := sign_requests st @ [(k, expiresIn)]\<rparr>)
              | Inl e \<Rightarrow>
                  (Failure ''Error generating signed URL'' (Some e),
                   st\<lparr>sign_requests := sign_requests st @ [(k, expiresIn)]\<rparr>)))"

section \<open>Listing conversion and key helpers (lib/s3/s3-helpers.ts, s3-types.ts, enums.ts)\<close>

datatype S3ObjectType = FILE | DIRECTORY

datatype FileOperationType = RENAME | DELETE | COPY | MOVE | CREATE

record S3Object =
  type :: S3ObjectType
  name :: string
  key :: string
  object :: "S3_Object option"

fun js_join :: "string \<Rightarrow> string list \<Rightarrow> string" where
  "js_join sep [] = []"
| "js_join sep [x] = x"
| "js_join sep (x # y # ys) = x @ sep @ js_join sep (y # ys)"

definition handlePrefixNameSplit :: "string \<Rightarrow> string" where
  "handlePrefixNameSplit prefix =
     (let parts = js_split CHR ''/'' prefix
      in if length parts \<ge> 2 then parts ! (length parts - 2) else parts ! 0)"

definition or_empty :: "string option \<Rightarrow> string" where
  "or_empty s = (case s of Some k \<Rightarrow> k | None \<Rightarrow> '''')"

text \<open>The body of the \<open>Contents.forEach\<close> callback: the entries it pushes for one object.\<close>

definition content_entries :: "string option \<Rightarrow> S3_Object \<Rightarrow> S3Object list" where
  "content_entries responsePrefix obj =
     (if Key obj = responsePrefix then []
      else if (case Key obj of None \<Rightarrow> True | Some k \<Rightarrow> hd (js_split CHR ''.'' k) = k)
              \<or> (case Key obj of None \<Rightarrow> False | Some k \<Rightarrow> endsWith k ''/'')
      then [\<lparr>type = DIRECTORY,
             name = (case Key obj of None \<Rightarrow> '''' | Some k \<Rightarrow> last (js_split CHR ''/'' k)),
             key = or_empty (Key obj), object = None\<rparr>]
      else [\<lparr>type = FILE,
             name = (case Key obj of None \<Rightarrow> '''' | Some k \<Rightarrow> last (js_split CHR ''/'' k)),
             key = or_empty (Key obj), object = Some obj\<rparr>])"

definition ListObjectsV2CommandOutputToS3Object :: "ListObjectsV2CommandOutput \<Rightarrow> S3Object list" where
  "ListObjectsV2CommandOutputToS3Object response =
     (case CommonPrefixes response of
        None \<Rightarrow> []
      | Some ps \<Rightarrow>
          map (\<lambda>p. \<lparr>type = DIRECTORY, name = handlePrefixNameSplit (or_empty p),
                    key = or_empty p, object = None\<rparr>) ps)
     @ (case Contents response of
          None \<Rightarrow> []
        | Some cs \<Rightarrow> concat (map (content_entries (Prefix response)) cs))"

definition convertSourceKeyToDestinationKey :: "string \<Rightarrow> string \<Rightarrow> string" where
  "convertSourceKeyToDestinationKey sourceKey destinationKey =
     (let sourceParts = js_split CHR ''/'' sourceKey;
          sourceName =
            (if endsWith sourceKey ''/''
             then (if length sourceParts \<ge> 2 then sourceParts ! (length sourceParts - 2) else '''') @ ''/''
             else sourceParts ! (length sourceParts - 1))
      in if endsWith destinationKey ''/'' then destinationKey @ sourceName else destinationKey)"

text \<open>In the directory branch an empty \<open>parts\<close> is left empty: \<open>parts[-1] = newName\<close> adds
  no element to a JavaScript array.\<close>

definition renameDestinationKey :: "string \<Rightarrow> string \<Rightarrow> string" where
  "renameDestinationKey destinationKey newName =
     (if endsWith destinationKey ''/''
      then (let parts = filter (\<lambda>p. p \<noteq> '''') (js_split CHR ''/'' destinationKey);
                parts' = (if parts = [] then parts else parts[length parts - 1 := newName]);
                result = ''/'' @ js_join ''/'' parts'
            in if endsWith result ''/'' then result else result @ ''/'')
      else (let parts = js_split CHR ''/'' destinationKey;
                parts' = parts[length parts - 1 := newName]
            in js_join ''/'' parts'))"

section \<open>Client stores, action layer and navigation\<close>

text \<open>
  \<open>S3ObjectState\<close> is the zustand slice (the fields of the selected object, which no
  function below writes, are left out); \<open>path\<close> is the persisted path slice;
  \<open>s3ObjectCache\<close> is the module-level listing cache of actions/s3-actions.ts; \<open>bucket\<close> is
  the backend the server functions talk to. The hook reads \<open>sourceKey\<close> and
  \<open>operationType\<close> from the store as of the call.
\<close>

record S3ObjectState =
  s3Objects :: "S3Object list"
  sourceKey :: "string option"
  destinationKey :: "string option"
  newName :: "string option"
  operationType :: "FileOperationType option"
  operationMessage :: "string option"

record app =
  store :: S3ObjectState
  path :: string
  s3ObjectCache :: "string \<Rightarrow> S3Object list OperationResult option"
  bucket :: world

definition getPath :: "app \<Rightarrow> string" where
  "getPath a = path a"

definition setPath :: "string \<Rightarrow> app \<Rightarrow> app" where
  "setPath k a =
     (if k = ''/'' \<or> k = '''' then a\<lparr>path := ''''\<rparr>
      else (let k' = (if startsWith k ''/'' then drop 1 k else k);
                formattedPath = (if endsWith k' ''/'' then k' else k' @ ''/'')
            in a\<lparr>path := formattedPath\<rparr>))"

definition setS3Objects :: "S3Object list \<Rightarrow> app \<Rightarrow> app" where
  "setS3Objects objs a = a\<lparr>store := (store a)\<lparr>s3Objects := objs\<rparr>\<rparr>"

definition setSourceKey :: "string \<Rightarrow> app \<Rightarrow> app" where
  "setSourceKey k a = a\<lparr>store := (store a)\<lparr>sourceKey := Some k\<rparr>\<rparr>"

definition setOperationType :: "FileOperationType \<Rightarrow> app \<Rightarrow> app" where
  "setOperationType t a = a\<lparr>store := (store a)\<lparr>operationType := Some t\<rparr>\<rparr>"

definition setOperationMessage :: "string \<Rightarrow> app \<Rightarrow> app" where
  "setOperationMessage m a = a\<lparr>store := (store a)\<lparr>operationMessage := Some m\<rparr>\<rparr>"

definition resetFileOperation :: "app \<Rightarrow> app" where
  "resetFileOperation a =
     a\<lparr>store := (store a)\<lparr>sourceKey := None, destinationKey := None, newName := None,
                             operationType := None, operationMessage := None\<rparr>\<rparr>"

definition getObjectsByKeyCommand :: "string \<Rightarrow> string \<Rightarrow> world \<Rightarrow> S3Object list OperationResult \<times> world" where
  "getObjectsByKeyCommand k delimiter w =
     (case client_send (ListObjectsV2Command k (Some delimiter) None) w of
        (Inr (ListObjectsV2Output response), w') \<Rightarrow>
          (Success (ListObjectsV2CommandOutputToS3Object response), w')
      | (Inr other, w') \<Rightarrow> (Success [], w')
      | (Inl e, w') \<Rightarrow> (Failure ''Error fetching S3 objects'' (Some e), w'))"

definition getObjectsAction :: "string \<Rightarrow> bool \<Rightarrow> app \<Rightarrow> S3Object list OperationResult \<times> app" where
  "getObjectsAction k forceRefresh a =
     (case (if forceRefresh then None else s3ObjectCache a k) of
        Some cached \<Rightarrow> (cached, a)
      | None \<Rightarrow>
          (case getObjectsByKeyCommand k ''/'' (bucket a) of
             (result, w') \<Rightarrow>
               (result, a\<lparr>bucket := w', s3ObjectCache := (s3ObjectCache a)(k \<mapsto> result)\<rparr>)))"

definition getS3Objects :: "string \<Rightarrow> bool \<Rightarrow> app \<Rightarrow> bool OperationResult \<times> app" where
  "getS3Objects k refresh a =
     (case getObjectsAction k refresh a of
        (response, a1) \<Rightarrow>
          (case data response of
             None \<Rightarrow> (ConvertFailure response, a1)
           | Some d \<Rightarrow>
               if \<not> success response then (ConvertFailure response, a1)
               else (Success True, setPath k (setS3Objects d a1))))"

text \<open>\<open>updateS3Objects\<close> of the navigation hook (the loading flag left out): it sets the
  path and lists it with a forced refresh. The browser's navigation and the upload
  pipeline call it.\<close>

definition navigation_updateS3Objects :: "string \<Rightarrow> app \<Rightarrow> app" where
  "navigation_updateS3Objects k a = snd (getS3Objects k True (setPath k a))"

text \<open>The mutation actions of actions/s3-actions.ts forward to the commands.\<close>

definition on_bucket :: "(world \<Rightarrow> 'r \<times> world) \<Rightarrow> app \<Rightarrow> 'r \<times> app" where
  "on_bucket f a = (case f (bucket a) of (r, w') \<Rightarrow> (r, a\<lparr>bucket := w'\<rparr>))"

definition createS3FolderAction :: "string \<Rightarrow> app \<Rightarrow> bool OperationResult \<times> app" where
  "createS3FolderAction k = on_bucket (createS3FolderCommand k)"

definition moveS3ObjectAction :: "string \<Rightarrow> string \<Rightarrow> app \<Rightarrow> bool OperationResult \<times> app" where
  "moveS3ObjectAction s d = on_bucket (moveS3ObjectCommand s d)"

definition copyS3ObjectAction :: "string \<Rightarrow> string \<Rightarrow> app \<Rightarrow> bool OperationResult \<times> app" where
  "copyS3ObjectAction s d = on_bucket (copyS3ObjectCommand s d)"

definition copyS3DirectoryAction :: "string \<Rightarrow> string \<Rightarrow> app \<Rightarrow> bool OperationResult \<times> app" where
  "copyS3DirectoryAction s d = on_bucket (copyS3DirectoryCommand s d)"

definition moveS3DirectoryAction :: "string \<Rightarrow> string \<Rightarrow> app \<Rightarrow> bool OperationResult \<times> app" where
  "moveS3DirectoryAction s d = on_bucket (moveS3DirectoryCommand s d)"

definition renameS3ObjectAction :: "string \<Rightarrow> string \<Rightarrow> app \<Rightarrow> bool OperationResult \<times> app" where
  "renameS3ObjectAction s d = on_bucket (renameS3ObjectCommand s d)"

definition renameS3DirectoryAction :: "string \<Rightarrow> string \<Rightarrow> app \<Rightarrow> bool OperationResult \<times> app" where
  "renameS3DirectoryAction s d = on_bucket (renameS3DirectoryCommand s d)"

definition deleteS3ObjectAction :: "string \<Rightarrow> app \<Rightarrow> bool OperationResult \<times> app" where
  "deleteS3ObjectAction k = on_bucket (deleteS3ObjectCommand k)"

definition deleteS3DirectoryAction :: "string \<Rightarrow> app \<Rightarrow> bool OperationResult \<times> app" where
  "deleteS3DirectoryAction k = on_bucket (deleteS3DirectoryCommand k)"

section \<open>Operation orchestrator (hooks/s3/use-s3-object-operations.ts)\<close>

definition operationName :: "FileOperationType \<Rightarrow> string" where
  "operationName t =
     (case t of RENAME \<Rightarrow> ''rename'' | DELETE \<Rightarrow> ''delete'' | COPY \<Rightarrow> ''copy''
      | MOVE \<Rightarrow> ''move'' | CREATE \<Rightarrow> ''create'')"

definition getDefaultMessage :: "FileOperationType option \<Rightarrow> string" where
  "getDefaultMessage operation =
     (case operation of
        Some MOVE \<Rightarrow> ''Moving S3 object...''
      | Some COPY \<Rightarrow> ''Copying S3 object...''
      | Some DELETE \<Rightarrow> ''Deleting S3 object...''
      | Some RENAME \<Rightarrow> ''Renaming S3 object...''
      | Some CREATE \<Rightarrow> ''Creating S3 directory...''
      | None \<Rightarrow> ''Processing S3 operation...'')"

definition updateProcessingState :: "FileOperationType option \<Rightarrow> app \<Rightarrow> app" where
  "updateProcessingState operation a = setOperationMessage (getDefaultMessage operation) a"

definition setOperationContext :: "string \<Rightarrow> FileOperationType \<Rightarrow> app \<Rightarrow> bool OperationResult \<times> app" where
  "setOperationContext k t a =
     (if k = '''' then (Failure ''Key cannot be empty'' None, a)
      else (Success True, setOperationType t (setSourceKey k a)))"

text \<open>The classification of lines 228-230: a trailing slash, and nothing else, makes a
  source key a directory.\<close>

definition objectTypeOf :: "string \<Rightarrow> S3ObjectType" where
  "objectTypeOf k = (if endsWith k ''/'' then DIRECTORY else FILE)"

text \<open>The \<open>switch (true)\<close> of \<open>dispatchS3Action\<close>: the action selected for an operation and
  an object type, \<open>None\<close> for the \<open>default\<close> branch.\<close>

definition selectAction ::
  "FileOperationType \<Rightarrow> S3ObjectType \<Rightarrow> string \<Rightarrow> string \<Rightarrow> (app \<Rightarrow> bool OperationResult \<times> app) option" where
  "selectAction t objectType src destination =
     (if t = CREATE \<and> objectType = DIRECTORY then Some (createS3FolderAction destination)
      else if t = MOVE \<and> objectType = FILE then Some (moveS3ObjectAction src destination)
      else if t = MOVE \<and> objectType = DIRECTORY then Some (moveS3DirectoryAction src destination)
      else if t = COPY \<and> objectType = FILE then Some (copyS3ObjectAction src destination)
      else if t = COPY \<and> objectType = DIRECTORY then Some (copyS3DirectoryAction src destination)
      else if t = RENAME \<and> objectType = FILE then Some (renameS3ObjectAction src destination)
      else if t = RENAME \<and> objectType = DIRECTORY then Some (renameS3DirectoryAction src destination)
      else if t = DELETE \<and> objectType = FILE then Some (deleteS3ObjectAction src)
      else if t = DELETE \<and> objectType = DIRECTORY then Some (deleteS3DirectoryAction src)
      else None)"

definition dispatchS3Action ::
  "FileOperationType \<Rightarrow> S3ObjectType \<Rightarrow> string \<Rightarrow> string \<Rightarrow> app \<Rightarrow> bool OperationResult \<times> app" where
  "dispatchS3Action t objectType src destination a =
     (case selectAction t objectType src destination of
        None \<Rightarrow> (Failure ''Invalid operation or file type'' None, a)
      | Some action \<Rightarrow>
          (case action a of
             (response, a1) \<Rightarrow>
               if success response
               then (case getS3Objects (getPath a1) False a1 of
                       (listed, a2) \<Rightarrow> (response, resetFileOperation a2))
               else (response, a1)))"

definition validateAndDispatchS3Action ::
  "FileOperationType \<Rightarrow> string option \<Rightarrow> app \<Rightarrow> bool OperationResult \<times> app" where
  "validateAndDispatchS3Action t newName' a =
     (case sourceKey (store a) of
        None \<Rightarrow>
          (Failure (''Missing required parameters for '' @ operationName t
                      @ '' operation, sourcekey, operationType'')
             (Some (Error (''Missing required parameters for '' @ operationName t
                      @ '' operation, sourcekey, operationType''))), a)
      | Some src \<Rightarrow>
          if src = '''' then
            (Failure (''Missing required parameters for '' @ operationName t
                        @ '' operation, sourcekey, operationType'')
               (Some (Error (''Missing required parameters for '' @ operationName t
                        @ '' operation, sourcekey, operationType''))), a)
          else if t = DELETE then dispatchS3Action t (objectTypeOf src) src '''' a
          else
            (let destinationKey' = (if getPath a = '''' then ''/'' else getPath a);
                 destination0 = convertSourceKeyToDestinationKey src destinationKey';
                 destination1 =
                   (case newName' of
                      None \<Rightarrow> destination0
                    | Some n \<Rightarrow> if n \<noteq> '''' then renameDestinationKey destination0 n
                                else destination0)
             in if t = CREATE
                then dispatchS3Action t DIRECTORY src
                       (if \<not> endsWith destination1 ''/'' then destination1 @ ''/'' else destination1) a
                else dispatchS3Action t (objectTypeOf src) src destination1 a))"

definition createS3Directory :: "string \<Rightarrow> app \<Rightarrow> bool OperationResult \<times> app" where
  "createS3Directory n a =
     (if operationType (store a) \<noteq> Some CREATE
      then (Failure ''Invalid operation type for create operation''
              (Some (Error ''Expected CREATE operation type'')), a)
      else if n = '''' then (Failure ''New name cannot be empty'' None, a)
      else validateAndDispatchS3Action CREATE (Some n) (updateProcessingState (Some CREATE) a))"

definition moveS3Object :: "app \<Rightarrow> bool OperationResult \<times> app" where
  "moveS3Object a =
     (if operationType (store a) \<noteq> Some MOVE
      then (Failure ''Opoeration type is not set to MOVE''
              (Some (Error ''Expected MOVE operation type'')), a)
      else validateAndDispatchS3Action MOVE None (updateProcessingState (Some MOVE) a))"

definition copyS3Object :: "app \<Rightarrow> bool OperationResult \<times> app" where
  "copyS3Object a =
     (if operationType (store a) \<noteq> Some COPY
      then (Failure ''Operation type is not set to COPY''
              (Some (Error ''Expected COPY operation type'')), a)
      else validateAndDispatchS3Action COPY None (updateProcessingState (Some COPY) a))"

definition deleteS3Object :: "app \<Rightarrow> bool OperationResult \<times> app" where
  "deleteS3Object a =
     (if operationType (store a) \<noteq> Some DELETE
      then (Failure ''Operation type is not set to DELETE''
              (Some (Error ''Expected DELETE operation type'')), a)
      else validateAndDispatchS3Action DELETE None (updateProcessingState (Some DELETE) a))"

definition renameS3Object :: "string \<Rightarrow> app \<Rightarrow> bool OperationResult \<times> app" where
  "renameS3Object n a =
     (if operationType (store a) \<noteq> Some RENAME
      then (Failure ''Operation type is not set to RENAME''
              (Some (Error ''Expected RENAME operation type'')), a)
      else validateAndDispatchS3Action RENAME (Some n) (updateProcessingState (Some RENAME) a))"

text \<open>The five public operations under one name, for statements about all of them.\<close>

datatype operation_call =
    CallCreate string | CallMove | CallCopy | CallDelete | CallRename string

fun run_operation :: "operation_call \<Rightarrow> app \<Rightarrow> bool OperationResult \<times> app" where
  "run_operation (CallCreate n) a = createS3Directory n a"
| "run_operation CallMove a = moveS3Object a"
| "run_operation CallCopy a = copyS3Object a"
| "run_operation CallDelete a = deleteS3Object a"
| "run_operation (CallRename n) a = renameS3Object n a"

section \<open>Upload pipeline (hooks/s3/use-s3-upload-operations.ts)\<close>

text \<open>
  A file is identified by its name. The two collaborators of the hook are given by the
  environment: \<open>presign location overwrite\<close> is the result of the upload-URL action, and
  \<open>transfer file\<close> is what \<open>axios.put\<close> does for that file: \<open>None\<close> when the transfer
  completes, \<open>Some e\<close> when the promise rejects with \<open>e\<close>. Aborting the transfer through its
  \<open>AbortController\<close> (\<open>cancelUpload\<close>) makes it reject with \<open>CanceledError\<close>, the error for
  which \<open>axios.isCancel\<close> holds. What the user does to the hook while the transfer of a
  file is in flight (pressing a cancel button) is the state change \<open>whileInFlight file\<close>,
  the identity when nothing happens. The statuses are the string literals of
  \<open>FileUploadStatus.status\<close>; \<open>Errored\<close> is \<open>'error'\<close>. State updates take effect in
  the order in which the hook issues them. Progress events, and the effect that copies the
  progress into the status list, are left out; so is a rejected call of the upload-URL
  action (the action returns a result).
\<close>

datatype upload_status = Pending | Uploading | Completed | Errored | Cancelled

datatype axios_error = CanceledError | AxiosError string | PlainError string | NonError

record FileUploadStatus =
  theFile :: string
  progress :: nat
  status :: upload_status
  errorText :: "string option"

record upload_state =
  files :: "string list"
  fileStatuses :: "FileUploadStatus list"
  currentFileIndex :: int
  isSubmitting :: bool
  currentProgress :: nat
  fileNameExist :: bool
  currentFile :: "string option"
  abortControllerRef :: bool
  navigationPath :: string
  listingRefreshes :: nat

record upload_env =
  presign :: "string \<Rightarrow> bool \<Rightarrow> string OperationResult"
  transfer :: "string \<Rightarrow> axios_error option"
  whileInFlight :: "string \<Rightarrow> upload_state \<Rightarrow> upload_state"

record UploadDetails =
  location :: string
  signedUrl :: string

definition handleError :: "axios_error \<Rightarrow> string \<Rightarrow> string" where
  "handleError e defaultMessage =
     (case e of
        CanceledError \<Rightarrow> ''Upload cancelled''
      | AxiosError m \<Rightarrow> m
      | PlainError m \<Rightarrow> m
      | NonError \<Rightarrow> defaultMessage)"

definition is_space :: "char \<Rightarrow> bool" where
  "is_space c = (c \<in> set [CHR '' '', CHR 0x09, CHR 0x0A, CHR 0x0B, CHR 0x0C, CHR 0x0D])"

definition js_trim :: "string \<Rightarrow> string" where
  "js_trim s = rev (dropWhile is_space (rev (dropWhile is_space s)))"

definition prepareUpload ::
  "upload_env \<Rightarrow> string \<Rightarrow> bool \<Rightarrow> upload_state \<Rightarrow> UploadDetails OperationResult \<times> upload_state" where
  "prepareUpload env f overwrite st =
     (let p = navigationPath st;
          currentLocation = (if endsWith p ''/'' then p else js_trim (p @ ''/''));
          loc = currentLocation @ f;
          response = presign env loc overwrite
      in if \<not> success response \<or> data response = None \<or> data response = Some ''''
         then (ConvertFailure response, st\<lparr>fileNameExist := (response = FileNameExists)\<rparr>)
         else (Success \<lparr>location = loc, signedUrl = or_empty (data response)\<rparr>,
               st\<lparr>abortControllerRef := True\<rparr>))"

text \<open>\<open>performUpload\<close> returns \<open>true\<close> or, after the \<open>catch\<close>, nothing (\<open>undefined\<close>, here
  \<open>None\<close>): the string \<open>handleError\<close> returns is dropped.\<close>

definition performUpload :: "upload_env \<Rightarrow> string \<Rightarrow> upload_state \<Rightarrow> bool option \<times> upload_state" where
  "performUpload env f st =
     (let st' = (whileInFlight env f st)\<lparr>abortControllerRef := False, fileNameExist := False\<rparr>
      in case transfer env f of
           None \<Rightarrow> (Some True, st')
         | Some e \<Rightarrow> (let dropped = handleError e ''Unknown error'' in (None, st')))"

definition updateS3Objects :: "upload_state \<Rightarrow> upload_state" where
  "updateS3Objects st = st\<lparr>listingRefreshes := Suc (listingRefreshes st)\<rparr>"

definition uploadSingleFile ::
  "upload_env \<Rightarrow> string \<Rightarrow> bool \<Rightarrow> upload_state \<Rightarrow> bool OperationResult \<times> upload_state" where
  "uploadSingleFile env f overwrite st =
     (case prepareUpload env f overwrite (st\<lparr>currentFile := Some f\<rparr>) of
        (uploadResult, st1) \<Rightarrow>
          if \<not> success uploadResult then (ConvertFailure uploadResult, st1)
          else (case data uploadResult of
                  None \<Rightarrow> (ConvertFailure uploadResult, st1)
                | Some details \<Rightarrow>
                    if signedUrl details = '''' then (ConvertFailure uploadResult, st1)
                    else (case performUpload env f st1 of
                            (uploadSuccess, st2) \<Rightarrow>
                              if uploadSuccess = Some True
                              then (Success True,
                                    (updateS3Objects (st2\<lparr>currentProgress := 0\<rparr>))\<lparr>currentFile := None\<rparr>)
                              else (Failure ''Upload failed'' None, st2))))"

definition updateFileStatus ::
  "FileUploadStatus list \<Rightarrow> nat \<Rightarrow> (FileUploadStatus \<Rightarrow> FileUploadStatus) \<Rightarrow> FileUploadStatus list" where
  "updateFileStatus prevStatuses i statusUpdate =
     (if i < length prevStatuses then prevStatuses[i := statusUpdate (prevStatuses ! i)]
      else prevStatuses)"

text \<open>The \<open>for\<close> loop of \<open>uploadMultipleFiles\<close> from index \<open>i\<close> on. \<open>snapshot\<close> is the
  \<open>fileStatuses\<close> value the function closed over, which the skip test reads.\<close>

fun upload_loop ::
  "upload_env \<Rightarrow> bool \<Rightarrow> FileUploadStatus list \<Rightarrow> nat \<Rightarrow> string list \<Rightarrow> nat \<times> nat \<Rightarrow> upload_state
     \<Rightarrow> (nat \<times> nat) \<times> upload_state" where
  "upload_loop env overwrite snapshot i [] counts st = (counts, st)"
| "upload_loop env overwrite snapshot i (f # rest) counts st =
     (if i < length snapshot
         \<and> (status (snapshot ! i) = Completed \<or> status (snapshot ! i) = Cancelled)
      then upload_loop env overwrite snapshot (Suc i) rest counts st
      else
        (let st1 = st\<lparr>currentFileIndex := int i,
                      fileStatuses := updateFileStatus (fileStatuses st) i (\<lambda>s. s\<lparr>status := Uploading\<rparr>)\<rparr>
         in case uploadSingleFile env f overwrite st1 of
              (result, st2) \<Rightarrow>
                if \<not> success result
                then upload_loop env overwrite snapshot (Suc i) rest (fst counts, Suc (snd counts))
                       (st2\<lparr>fileStatuses := updateFileStatus (fileStatuses st2) i
                              (\<lambda>s. s\<lparr>status := Errored, errorText := message result\<rparr>)\<rparr>)
                else upload_loop env overwrite snapshot (Suc i) rest (Suc (fst counts), snd counts)
                       (st2\<lparr>fileStatuses := updateFileStatus (fileStatuses st2) i
                              (\<lambda>s. s\<lparr>progress := 100, status := Completed\<rparr>)\<rparr>)))"

definition uploadMultipleFiles :: "upload_env \<Rightarrow> bool \<Rightarrow> upload_state \<Rightarrow> (nat \<times> nat) \<times> upload_state" where
  "uploadMultipleFiles env overwrite st =
     (if length (files st) = 0 then ((0, 0), st)
      else (case upload_loop env overwrite (fileStatuses st) 0 (files st) (0, 0)
                   (st\<lparr>isSubmitting := True\<rparr>) of
              (counts, st1) \<Rightarrow>
                (counts, updateS3Objects (st1\<lparr>currentFileIndex := -1, isSubmitting := False\<rparr>))))"

definition cancelUpload :: "upload_state \<Rightarrow> upload_state" where
  "cancelUpload st = (if abortControllerRef st then st\<lparr>currentProgress := 0\<rparr> else st)"

definition cancelAllUploads :: "upload_state \<Rightarrow> upload_state" where
  "cancelAllUploads st =
     (cancelUpload st)
       \<lparr>fileStatuses :=
          map (\<lambda>s. if status s = Uploading \<or> status s = Pending then s\<lparr>status := Cancelled\<rparr> else s)
            (fileStatuses st),
        currentFileIndex := -1\<rparr>"

definition handleFiles :: "string list \<Rightarrow> upload_state \<Rightarrow> upload_state" where
  "handleFiles newFiles st =
     st\<lparr>files := newFiles,
        fileStatuses := map (\<lambda>f. \<lparr>theFile = f, progress = 0, status = Pending, errorText = None\<rparr>) newFiles\<rparr>"

section \<open>Example states\<close>

text \<open>Concrete buckets on which the theorems below are instantiated.\<close>

definition small_bucket :: world where
  "small_bucket =
     \<lparr>objects = [(''a.txt'', ''A''), (''docs/README'', ''R'')],
      faults = (\<lambda>n. None),
      requests = [],
      max_keys = 1000\<rparr>"

text \<open>The first request (here the existence probe) fails with a transport error.\<close>

definition flaky_probe_bucket :: world where
  "flaky_probe_bucket =
     \<lparr>objects = [(''a.txt'', ''A''), (''b.txt'', ''B'')],
      faults = (\<lambda>n. if n = 0 then Some (Error ''ETIMEDOUT'') else None),
      requests = [],
      max_keys = 1000\<rparr>"


text \<open>The browser at \<open>docs/\<close> with a pending DELETE of \<open>docs/README\<close>; the same with a
  backend whose first request fails; and the same after the browser has navigated to
  \<open>docs/\<close>, which lists the directory and leaves the listing in the action layer's cache.\<close>

definition browsing_app :: app where
  "browsing_app =
     \<lparr>store = \<lparr>s3Objects = [], sourceKey = Some ''docs/README'', destinationKey = None,
               newName = None, operationType = Some DELETE, operationMessage = None\<rparr>,
      path = ''docs/'',
      s3ObjectCache = (\<lambda>k. None),
      bucket = small_bucket\<rparr>"

definition offline_app :: app where
  "offline_app = browsing_app\<lparr>bucket := flaky_probe_bucket\<rparr>"

definition cached_app :: app where
  "cached_app = navigation_updateS3Objects ''docs/'' browsing_app"

text \<open>A directory of three objects; the third request (the delete of \<open>docs/b.txt\<close> when the
  directory is deleted) fails.\<close>

definition docs_world :: world where
  "docs_world =
     \<lparr>objects = [(''docs/a.txt'', ''A''), (''docs/b.txt'', ''B''), (''docs/c.txt'', ''C'')],
      faults = (\<lambda>n. if n = 2 then Some (Error ''socket hang up'') else None),
      requests = [],
      max_keys = 1000\<rparr>"

text \<open>A directory of two objects; the fifth request (the copy of \<open>docs/a.txt\<close> when the
  directory is copied) fails.\<close>

definition copy_world :: world where
  "copy_world =
     \<lparr>objects = [(''docs/a.txt'', ''A''), (''docs/b.txt'', ''B'')],
      faults = (\<lambda>n. if n = 4 then Some (Error ''socket hang up'') else None),
      requests = [],
      max_keys = 1000\<rparr>"

text \<open>A directory of three objects behind a backend that returns two keys per page (S3
  returns 1000).\<close>

definition paged_world :: world where
  "paged_world =
     \<lparr>objects = [(''docs/a.txt'', ''A''), (''docs/b.txt'', ''B''), (''docs/c.txt'', ''C'')],
      faults = (\<lambda>n. None),
      requests = [],
      max_keys = 2\<rparr>"

text \<open>An empty URL cache with a signer whose URLs differ from one request to the next, and
  the state after a first request for \<open>a.txt\<close> at time 0 with the default expiry of 900 s.\<close>

definition fresh_urls :: url_state where
  "fresh_urls =
     \<lparr>signedUrlCache = (\<lambda>k. None),
      signer = (\<lambda>n k e. Inr (k @ (if n = 0 then ''?sig=first'' else ''?sig=later''))),
      sign_requests = []\<rparr>"

definition after_first_call :: url_state where
  "after_first_call = snd (getSignedUrlCommand 900 ''a.txt'' None 0 fresh_urls)"

text \<open>One selected file in a batch upload. In \<open>cancelling_env\<close> the user cancels all uploads
  while the file is in flight and the transfer is aborted; in \<open>failing_env\<close> the transfer
  fails with a network error and the user does nothing.\<close>

definition idle_upload :: upload_state where
  "idle_upload =
     \<lparr>files = [], fileStatuses = [], currentFileIndex = -1, isSubmitting = False,
      currentProgress = 0, fileNameExist = False, currentFile = None,
      abortControllerRef = False, navigationPath = ''docs/'', listingRefreshes = 0\<rparr>"

definition one_file :: upload_state where
  "one_file = handleFiles [''a.bin''] idle_upload"

definition cancelling_env :: upload_env where
  "cancelling_env =
     \<lparr>presign = (\<lambda>loc overwrite. Success (''https://signed/'' @ loc)),
      transfer = (\<lambda>f. Some CanceledError),
      whileInFlight = (\<lambda>f. cancelAllUploads)\<rparr>"

definition failing_env :: upload_env where
  "failing_env =
     \<lparr>presign = (\<lambda>loc overwrite. Success (''https://signed/'' @ loc)),
      transfer = (\<lambda>f. Some (AxiosError ''Network Error'')),
      whileInFlight = (\<lambda>f st. st)\<rparr>"

section \<open>Facts about the backend and the single-object commands\<close>

lemma client_send_requests:
  "client_send c w = (x, w') \<Longrightarrow> requests w' = requests w @ [c]"
  by (cases c) (auto simp: client_send_def Let_def split: option.splits if_splits)

lemma checkIfObjectKeyExists_world:
  "checkIfObjectKeyExists k w = (r, w') \<Longrightarrow> w' = w\<lparr>requests := requests w @ [HeadObjectCommand k]\<rparr>"
  by (auto simp: checkIfObjectKeyExists_def client_send_def Let_def
           split: option.splits ResultErrorType.splits if_splits)

lemma map_of_put_object: "map_of (put_object k body os) k = Some body"
proof (cases "map_of os k")
  case None
  then show ?thesis by (simp add: put_object_def map_add_def)
next
  case (Some b)
  have "map_of (map (\<lambda>(k', b). if k' = k then (k', body) else (k', b)) os) k = Some body"
    using Some by (induction os) (auto split: if_splits)
  then show ?thesis using Some by (simp add: put_object_def)
qed

section \<open>Existence probe\<close>

text \<open>
  Claim C4. For every key, the existence check maps the backend's not-found condition
  (the service exception named \<open>NotFound\<close> thrown by \<open>HeadObject\<close>) to \<open>Success(false)\<close>;
  its result is a failure exactly when the request threw some other error; and for a key
  that is not in the bucket, with the request reaching the bucket, the result is
  \<open>Success(false)\<close>.
\<close>

theorem checkIfObjectKeyExists_not_found:
  "(client_send (HeadObjectCommand k) w = (Inl (S3ServiceException ''NotFound''), w')
      \<longrightarrow> checkIfObjectKeyExists k w = (Success False, w'))
   \<and> (\<not> success (fst (checkIfObjectKeyExists k w))
        \<longleftrightarrow> (\<exists>e. fst (client_send (HeadObjectCommand k) w) = Inl e
                 \<and> e \<noteq> S3ServiceException ''NotFound''))
   \<and> (\<not> has_key w k \<and> faults w (length (requests w)) = None
        \<longrightarrow> fst (checkIfObjectKeyExists k w) = Success False)"
  by (auto simp: checkIfObjectKeyExists_def client_send_def Let_def Success_def Failure_def
                 has_key_def
           split: option.splits ResultErrorType.splits if_splits sum.splits prod.splits)

theorem checkIfObjectKeyExists_not_found_witness:
  "client_send (HeadObjectCommand ''never-created'') small_bucket =
     (Inl (S3ServiceException ''NotFound''),
      small_bucket\<lparr>requests := [HeadObjectCommand ''never-created'']\<rparr>)
   \<and> checkIfObjectKeyExists ''never-created'' small_bucket =
       (Success False, small_bucket\<lparr>requests := [HeadObjectCommand ''never-created'']\<rparr>)
   \<and> \<not> has_key small_bucket ''never-created''
   \<and> faults small_bucket (length (requests small_bucket)) = None
   \<and> fst (checkIfObjectKeyExists ''never-created'' small_bucket) = Success False
   \<and> fst (client_send (HeadObjectCommand ''a.txt'') flaky_probe_bucket) = Inl (Error ''ETIMEDOUT'')
   \<and> \<not> success (fst (checkIfObjectKeyExists ''a.txt'' flaky_probe_bucket))"
  using checkIfObjectKeyExists_not_found
          [of "''never-created''" small_bucket
              "small_bucket\<lparr>requests := [HeadObjectCommand ''never-created'']\<rparr>"]
        checkIfObjectKeyExists_not_found [of "''a.txt''" flaky_probe_bucket]
  by (simp add: small_bucket_def flaky_probe_bucket_def client_send_def has_key_def Let_def)

section \<open>Copying onto an existing key\<close>

text \<open>
  Claim C3. For every source and destination key: if the existence probe of the
  destination returns a success result carrying \<open>true\<close>, then \<open>copyS3ObjectCommand\<close> returns the
  \<open>DestinationKeyExist\<close> sentinel, the only request sent is the probe (no copy request),
  and the bucket content is unchanged. The sentinel is a failure, and it differs from the
  generic failure of the command (\<open>Error copying S3 object\<close>) whatever error that carries,
  and from every failure with another message.
\<close>

theorem copyS3ObjectCommand_destination_exists:
  assumes "checkIfObjectKeyExists dst w = (r, w1)"
    and "success r" and "data r = Some True"
  shows "copyS3ObjectCommand src dst w = (DestinationKeyExist, w1)
     \<and> requests w1 = requests w @ [HeadObjectCommand dst]
     \<and> objects w1 = objects w
     \<and> \<not> success DestinationKeyExist
     \<and> (\<forall>e. DestinationKeyExist \<noteq> Failure ''Error copying S3 object'' e)
     \<and> (\<forall>m e. m \<noteq> ''Destination key already exists, copy operation aborted''
                 \<longrightarrow> DestinationKeyExist \<noteq> Failure m e)"
  using assms checkIfObjectKeyExists_world [of dst w r w1]
  by (simp add: copyS3ObjectCommand_def DestinationKeyExist_def Failure_def)

theorem copyS3ObjectCommand_destination_exists_witness:
  "checkIfObjectKeyExists ''a.txt'' small_bucket =
     (Success True, small_bucket\<lparr>requests := [HeadObjectCommand ''a.txt'']\<rparr>)
   \<and> success (Success True :: bool OperationResult)
   \<and> data (Success True) = Some True
   \<and> copyS3ObjectCommand ''docs/README'' ''a.txt'' small_bucket =
       (DestinationKeyExist, small_bucket\<lparr>requests := [HeadObjectCommand ''a.txt'']\<rparr>)
   \<and> objects (small_bucket\<lparr>requests := [HeadObjectCommand ''a.txt'']\<rparr>) = objects small_bucket"
proof -
  have probe: "checkIfObjectKeyExists ''a.txt'' small_bucket =
     (Success True, small_bucket\<lparr>requests := [HeadObjectCommand ''a.txt'']\<rparr>)"
    by (simp add: checkIfObjectKeyExists_def client_send_def small_bucket_def has_key_def Let_def)
  have s: "success (Success True :: bool OperationResult)" and d: "data (Success True) = Some True"
    by (simp_all add: Success_def)
  from copyS3ObjectCommand_destination_exists [OF probe s d, of "''docs/README''"] probe s d
  show ?thesis by simp
qed

section \<open>A failed probe does not stop the copy\<close>

text \<open>
  Claim C8. When the existence probe of the destination returns a failure result,
  \<open>copyS3ObjectCommand\<close> does not return that failure: it sends the copy request, and its
  result is decided by that request alone. So a destination that exists is overwritten
  when the probe fails with a transport error and the copy request goes through. The
  directory pre-check likewise goes on to the remaining objects after a failed probe, as
  if the key did not exist.
\<close>

theorem copy_proceeds_after_failed_probe:
  "(checkIfObjectKeyExists dst w = (r, w1) \<and> \<not> success r \<longrightarrow>
      copyS3ObjectCommand src dst w =
        (case client_send (CopyObjectCommand src dst) w1 of
           (Inr out, w2) \<Rightarrow> (Success True, w2)
         | (Inl e, w2) \<Rightarrow> (Failure ''Error copying S3 object'' (Some e), w2))
      \<and> requests (snd (copyS3ObjectCommand src dst w)) =
          requests w @ [HeadObjectCommand dst, CopyObjectCommand src dst])
   \<and> (has_key w dst \<and> map_of (objects w) src = Some body
        \<and> faults w (length (requests w)) = Some (Error t)
        \<and> faults w (Suc (length (requests w))) = None \<longrightarrow>
        fst (copyS3ObjectCommand src dst w) = Success True
        \<and> map_of (objects (snd (copyS3ObjectCommand src dst w))) dst
            = Some body)
   \<and> (checkIfObjectKeyExists (transformS3DirectoryKeys (object_key obj) dirKey) w = (r, w1)
        \<and> \<not> success r \<longrightarrow>
        checkIfDestinationDirectoryExist (obj # rest) dirKey w
          = destination_exists_loop rest dirKey w1)"
proof (intro conjI impI)
  assume h: "checkIfObjectKeyExists dst w = (r, w1) \<and> \<not> success r"
  then show "copyS3ObjectCommand src dst w =
        (case client_send (CopyObjectCommand src dst) w1 of
           (Inr out, w2) \<Rightarrow> (Success True, w2)
         | (Inl e, w2) \<Rightarrow> (Failure ''Error copying S3 object'' (Some e), w2))"
    by (simp add: copyS3ObjectCommand_def)
  from h have w1: "w1 = w\<lparr>requests := requests w @ [HeadObjectCommand dst]\<rparr>"
    using checkIfObjectKeyExists_world by blast
  from h show "requests (snd (copyS3ObjectCommand src dst w)) =
          requests w @ [HeadObjectCommand dst, CopyObjectCommand src dst]"
    by (auto simp: copyS3ObjectCommand_def w1 dest!: client_send_requests
             split: prod.splits sum.splits)
next
  assume h: "has_key w dst \<and> map_of (objects w) src = Some body
        \<and> faults w (length (requests w)) = Some (Error t)
        \<and> faults w (Suc (length (requests w))) = None"
  then show "fst (copyS3ObjectCommand src dst w) = Success True"
    by (simp add: copyS3ObjectCommand_def checkIfObjectKeyExists_def client_send_def Let_def
          Failure_def)
  from h show "map_of (objects (snd (copyS3ObjectCommand src dst w))) dst
      = Some body"
    by (simp add: copyS3ObjectCommand_def checkIfObjectKeyExists_def client_send_def Let_def
          Failure_def map_of_put_object)
next
  assume "checkIfObjectKeyExists (transformS3DirectoryKeys (object_key obj) dirKey) w = (r, w1)
        \<and> \<not> success r"
  then show "checkIfDestinationDirectoryExist (obj # rest) dirKey w
      = destination_exists_loop rest dirKey w1"
    by (simp add: checkIfDestinationDirectoryExist_def)
qed

theorem copy_proceeds_after_failed_probe_witness:
  "checkIfObjectKeyExists ''b.txt'' flaky_probe_bucket =
     (Failure ''Error checking if S3 object exists'' (Some (Error ''ETIMEDOUT'')),
      flaky_probe_bucket\<lparr>requests := [HeadObjectCommand ''b.txt'']\<rparr>)
   \<and> requests (snd (copyS3ObjectCommand ''a.txt'' ''b.txt'' flaky_probe_bucket)) =
       [HeadObjectCommand ''b.txt'', CopyObjectCommand ''a.txt'' ''b.txt'']
   \<and> has_key flaky_probe_bucket ''b.txt''
   \<and> map_of (objects flaky_probe_bucket) ''b.txt'' = Some ''B''
   \<and> fst (copyS3ObjectCommand ''a.txt'' ''b.txt'' flaky_probe_bucket) = Success True
   \<and> map_of (objects (snd (copyS3ObjectCommand ''a.txt'' ''b.txt'' flaky_probe_bucket))) ''b.txt''
       = Some ''A''
   \<and> checkIfDestinationDirectoryExist [\<lparr>Key = Some ''docs/a.txt''\<rparr>] ''backup/'' flaky_probe_bucket =
       (Success False, flaky_probe_bucket\<lparr>requests := [HeadObjectCommand ''backup/a.txt'']\<rparr>)"
proof -
  have t: "transformS3DirectoryKeys (object_key \<lparr>Key = Some ''docs/a.txt''\<rparr>) ''backup/''
            = ''backup/a.txt''"
    by (simp add: transformS3DirectoryKeys_def js_replace_def object_key_def endsWith_def
          startsWith_def)
  have p1: "checkIfObjectKeyExists ''b.txt'' flaky_probe_bucket =
     (Failure ''Error checking if S3 object exists'' (Some (Error ''ETIMEDOUT'')),
      flaky_probe_bucket\<lparr>requests := [HeadObjectCommand ''b.txt'']\<rparr>)"
    by (simp add: checkIfObjectKeyExists_def client_send_def flaky_probe_bucket_def Let_def)
  have p2: "checkIfObjectKeyExists ''backup/a.txt'' flaky_probe_bucket =
     (Failure ''Error checking if S3 object exists'' (Some (Error ''ETIMEDOUT'')),
      flaky_probe_bucket\<lparr>requests := [HeadObjectCommand ''backup/a.txt'']\<rparr>)"
    by (simp add: checkIfObjectKeyExists_def client_send_def flaky_probe_bucket_def Let_def)
  have f: "\<not> success (Failure ''Error checking if S3 object exists'' (Some (Error ''ETIMEDOUT''))
              :: bool OperationResult)"
    by (simp add: Failure_def)
  have pre: "has_key flaky_probe_bucket ''b.txt''
      \<and> map_of (objects flaky_probe_bucket) ''a.txt'' = Some ''A''
      \<and> faults flaky_probe_bucket (length (requests flaky_probe_bucket)) = Some (Error ''ETIMEDOUT'')
      \<and> faults flaky_probe_bucket (Suc (length (requests flaky_probe_bucket))) = None"
    by (simp add: flaky_probe_bucket_def has_key_def)
  have old: "map_of (objects flaky_probe_bucket) ''b.txt'' = Some ''B''"
    and rq: "requests flaky_probe_bucket = []"
    by (simp_all add: flaky_probe_bucket_def)
  from copy_proceeds_after_failed_probe
         [of "''b.txt''" flaky_probe_bucket
             "Failure ''Error checking if S3 object exists'' (Some (Error ''ETIMEDOUT''))"
             "flaky_probe_bucket\<lparr>requests := [HeadObjectCommand ''b.txt'']\<rparr>"
             "''a.txt''" "''A''" "''ETIMEDOUT''"]
       p1 f pre
  have a: "requests (snd (copyS3ObjectCommand ''a.txt'' ''b.txt'' flaky_probe_bucket)) =
       requests flaky_probe_bucket @ [HeadObjectCommand ''b.txt'', CopyObjectCommand ''a.txt'' ''b.txt'']
     \<and> fst (copyS3ObjectCommand ''a.txt'' ''b.txt'' flaky_probe_bucket) = Success True
     \<and> map_of (objects (snd (copyS3ObjectCommand ''a.txt'' ''b.txt'' flaky_probe_bucket))) ''b.txt''
         = Some ''A''"
    by blast
  from copy_proceeds_after_failed_probe
         [of "''b.txt''" flaky_probe_bucket
             "Failure ''Error checking if S3 object exists'' (Some (Error ''ETIMEDOUT''))"
             "flaky_probe_bucket\<lparr>requests := [HeadObjectCommand ''backup/a.txt'']\<rparr>"
             "''a.txt''" "''A''" "''ETIMEDOUT''" "\<lparr>Key = Some ''docs/a.txt''\<rparr>" "''backup/''" "[]"]
       p2 f
  have "checkIfDestinationDirectoryExist [\<lparr>Key = Some ''docs/a.txt''\<rparr>] ''backup/'' flaky_probe_bucket
        = destination_exists_loop [] ''backup/''
            (flaky_probe_bucket\<lparr>requests := [HeadObjectCommand ''backup/a.txt'']\<rparr>)"
    unfolding t by blast
  then have b: "checkIfDestinationDirectoryExist [\<lparr>Key = Some ''docs/a.txt''\<rparr>] ''backup/'' flaky_probe_bucket
        = (Success False, flaky_probe_bucket\<lparr>requests := [HeadObjectCommand ''backup/a.txt'']\<rparr>)"
    by simp
  from a b p1 pre old show ?thesis by (simp add: rq)
qed

section \<open>Moving an object onto itself\<close>




section \<open>Two classifiers for one key\<close>








section \<open>The orchestrator's effect on the operation context and on the listing\<close>

lemma on_bucket_frame:
  "on_bucket f a = (r, a1) \<Longrightarrow> \<exists>w1. a1 = a\<lparr>bucket := w1\<rparr>"
  by (auto simp: on_bucket_def split: prod.splits)

lemma selectAction_frame:
  "selectAction t ty src d = Some action \<Longrightarrow> action a = (r, a1) \<Longrightarrow> \<exists>w1. a1 = a\<lparr>bucket := w1\<rparr>"
  by (auto simp: selectAction_def createS3FolderAction_def moveS3ObjectAction_def
        moveS3DirectoryAction_def copyS3ObjectAction_def copyS3DirectoryAction_def
        renameS3ObjectAction_def renameS3DirectoryAction_def deleteS3ObjectAction_def
        deleteS3DirectoryAction_def dest: on_bucket_frame split: if_splits)

lemma getS3Objects_context:
  "sourceKey (store (snd (getS3Objects p refresh a))) = sourceKey (store a)
   \<and> operationType (store (snd (getS3Objects p refresh a))) = operationType (store a)"
  by (auto simp: getS3Objects_def getObjectsAction_def setPath_def setS3Objects_def Let_def
           split: option.splits prod.splits if_splits)

lemma reset_context:
  "sourceKey (store (resetFileOperation a)) = None \<and> operationType (store (resetFileOperation a)) = None"
  by (simp add: resetFileOperation_def)

text \<open>
  \<open>dispatchS3Action\<close> returns the result of the action it selected. When that result is a
  success, the state is the one left by \<open>getS3Objects(getPath())\<close>, called without a forced
  refresh after the action, with the operation context reset; when it is a failure, only
  the backend has changed.
\<close>

lemma dispatch_frame:
  assumes "selectAction t ty src d = Some action" and "action a = (r1, a1)"
  shows "fst (dispatchS3Action t ty src d a) = r1
       \<and> (success r1 \<longrightarrow>
             snd (dispatchS3Action t ty src d a)
               = resetFileOperation (snd (getS3Objects (getPath a) False a1)))
       \<and> (\<not> success r1 \<longrightarrow> snd (dispatchS3Action t ty src d a) = a1)
       \<and> store a1 = store a \<and> path a1 = path a \<and> s3ObjectCache a1 = s3ObjectCache a"
proof -
  from selectAction_frame [OF assms] obtain w1 where a1: "a1 = a\<lparr>bucket := w1\<rparr>" by blast
  then have "getPath a1 = getPath a" by (simp add: getPath_def)
  with assms a1 show ?thesis
    by (auto simp: dispatchS3Action_def split: prod.splits)
qed

lemma dispatch_context:
  assumes "dispatchS3Action t ty src d a = (r, a')"
  shows "(success r \<longrightarrow> sourceKey (store a') = None \<and> operationType (store a') = None)
       \<and> (\<not> success r \<longrightarrow> store a' = store a \<and> path a' = path a)"
proof (cases "selectAction t ty src d")
  case None
  with assms show ?thesis by (auto simp: dispatchS3Action_def Failure_def)
next
  case (Some action)
  obtain r1 a1 where act: "action a = (r1, a1)" by (cases "action a")
  from dispatch_frame [OF Some act] assms reset_context show ?thesis by auto
qed

lemma validate_context:
  assumes "validateAndDispatchS3Action t n a = (r, a')"
  shows "(success r \<longrightarrow> sourceKey (store a') = None \<and> operationType (store a') = None)
       \<and> (\<not> success r \<longrightarrow> store a' = store a \<and> path a' = path a)"
  using assms
  by (auto simp: validateAndDispatchS3Action_def Let_def Failure_def
        dest!: dispatch_context split: option.splits if_splits)

lemma updateProcessingState_frame:
  "sourceKey (store (updateProcessingState t a)) = sourceKey (store a)
   \<and> operationType (store (updateProcessingState t a)) = operationType (store a)
   \<and> getPath (updateProcessingState t a) = getPath a"
  by (simp add: updateProcessingState_def setOperationMessage_def getPath_def)

text \<open>The part of the claim about the operation context holds for all five operations.\<close>

lemma orchestrator_context:
  assumes "run_operation c a = (r, a')"
  shows "(success r \<longrightarrow> sourceKey (store a') = None \<and> operationType (store a') = None)
       \<and> (\<not> success r \<longrightarrow> sourceKey (store a') = sourceKey (store a)
                           \<and> operationType (store a') = operationType (store a))"
proof (cases c)
  case (CallCreate n)
  with assms show ?thesis
    using updateProcessingState_frame[of "Some CREATE" a]
    by (auto simp: createS3Directory_def Failure_def dest!: validate_context split: if_splits)
next
  case CallMove
  with assms show ?thesis
    using updateProcessingState_frame[of "Some MOVE" a]
    by (auto simp: moveS3Object_def Failure_def dest!: validate_context split: if_splits)
next
  case CallCopy
  with assms show ?thesis
    using updateProcessingState_frame[of "Some COPY" a]
    by (auto simp: copyS3Object_def Failure_def dest!: validate_context split: if_splits)
next
  case CallDelete
  with assms show ?thesis
    using updateProcessingState_frame[of "Some DELETE" a]
    by (auto simp: deleteS3Object_def Failure_def dest!: validate_context split: if_splits)
next
  case (CallRename n)
  with assms show ?thesis
    using updateProcessingState_frame[of "Some RENAME" a]
    by (auto simp: renameS3Object_def Failure_def dest!: validate_context split: if_splits)
qed

lemmas delete_run_defs =
  deleteS3Object_def validateAndDispatchS3Action_def dispatchS3Action_def selectAction_def
  objectTypeOf_def deleteS3ObjectAction_def on_bucket_def deleteS3ObjectCommand_def
  client_send_def updateProcessingState_def setOperationMessage_def getDefaultMessage_def
  getS3Objects_def getObjectsAction_def getObjectsByKeyCommand_def getPath_def setPath_def
  setS3Objects_def resetFileOperation_def list_page_def list_entries_def list_entry_def
  some_if_nonempty_def ListObjectsV2CommandOutputToS3Object_def content_entries_def
  or_empty_def has_key_def startsWith_def endsWith_def Success_def Failure_def
  ConvertFailure_def Let_def

text \<open>A delete against a backend whose request fails: the context stays.\<close>

lemma run_offline:
  "run_operation CallDelete offline_app =
     (Failure ''Error deleting S3 object'' (Some (Error ''ETIMEDOUT'')),
      offline_app\<lparr>store := (store offline_app)\<lparr>operationMessage := Some ''Deleting S3 object...''\<rparr>,
                   bucket := flaky_probe_bucket\<lparr>requests := [DeleteObjectCommand ''docs/README'']\<rparr>\<rparr>)"
  by (simp add: offline_app_def browsing_app_def flaky_probe_bucket_def delete_run_defs)

text \<open>The state after navigating to \<open>docs/\<close>: the listing is in the store and in the cache.\<close>

lemma cached_app_state:
  "cached_app =
     \<lparr>store = \<lparr>s3Objects = [\<lparr>type = DIRECTORY, name = ''README'', key = ''docs/README'',
                              object = None\<rparr>],
               sourceKey = Some ''docs/README'', destinationKey = None,
               newName = None, operationType = Some DELETE, operationMessage = None\<rparr>,
      path = ''docs/'',
      s3ObjectCache =
        (\<lambda>k. None)(''docs/'' \<mapsto> Success [\<lparr>type = DIRECTORY, name = ''README'',
                                             key = ''docs/README'', object = None\<rparr>]),
      bucket = small_bucket\<lparr>requests := [ListObjectsV2Command ''docs/'' (Some ''/'') None]\<rparr>\<rparr>"
  by (simp add: cached_app_def navigation_updateS3Objects_def browsing_app_def small_bucket_def
        delete_run_defs)

text \<open>
  Claim C7 says that after a successful mutation the orchestrator refreshes the listing
  of the current path and resets the operation context, and that after a failed one the
  context is unchanged. The context part holds (\<open>orchestrator_context\<close>); the refresh does
  not happen. The orchestrator lists the path with \<open>getS3Objects(getPath())\<close>, without the
  forced refresh that \<open>updateS3Objects\<close> of the navigation hook passes, so the action layer
  answers from its cache whenever it holds the path, and it holds every path the browser
  has navigated to. In \<open>cached_app\<close> the browser has navigated to \<open>docs/\<close>; deleting
  \<open>docs/README\<close> there succeeds (the dispatched action returns \<open>Success(true)\<close>, the object
  leaves the bucket, the context is reset), yet no list request follows the delete and the
  store still lists \<open>docs/README\<close>. The forced refresh of the navigation hook, applied to
  the same state, shows the directory without it.
\<close>

theorem successful_delete_keeps_stale_listing:
  "s3ObjectCache cached_app ''docs/'' =
     Some (Success [\<lparr>type = DIRECTORY, name = ''README'', key = ''docs/README'', object = None\<rparr>])
   \<and> has_key (bucket cached_app) ''docs/README''
   \<and> fst (deleteS3ObjectAction ''docs/README'' (updateProcessingState (Some DELETE) cached_app))
       = Success True
   \<and> fst (run_operation CallDelete cached_app) = Success True
   \<and> \<not> has_key (bucket (snd (run_operation CallDelete cached_app))) ''docs/README''
   \<and> requests (bucket (snd (run_operation CallDelete cached_app))) =
       [ListObjectsV2Command ''docs/'' (Some ''/'') None, DeleteObjectCommand ''docs/README'']
   \<and> s3Objects (store (snd (run_operation CallDelete cached_app))) =
       [\<lparr>type = DIRECTORY, name = ''README'', key = ''docs/README'', object = None\<rparr>]
   \<and> sourceKey (store (snd (run_operation CallDelete cached_app))) = None
   \<and> operationType (store (snd (run_operation CallDelete cached_app))) = None
   \<and> s3Objects (store (navigation_updateS3Objects ''docs/''
                         (snd (run_operation CallDelete cached_app)))) = []"
  unfolding cached_app_state
  by (simp add: navigation_updateS3Objects_def small_bucket_def delete_run_defs)

section \<open>Directory commands and failing children\<close>

lemmas directory_run_defs =
  deleteS3DirectoryCommand_def copyS3DirectoryCommand_def listAllS3ObjectsInDirectory_def
  checkIfDestinationDirectoryExist_def checkIfObjectKeyExists_def copyS3ObjectCommand_def
  deleteS3ObjectCommand_def transformS3DirectoryKeys_def js_replace_def object_key_def truthy_def
  client_send_def list_page_def list_entries_def list_entry_def some_if_nonempty_def
  has_key_def put_object_def startsWith_def endsWith_def
  Success_def Failure_def ConvertFailure_def DestinationKeyExist_def Let_def

text \<open>The loops never leave early: a result is an object, so \<open>!response\<close> never holds.\<close>

lemma delete_loop_never_aborts: "fst (delete_loop objs w) = None"
  by (induction objs arbitrary: w) (auto simp: truthy_def split: prod.splits)

lemma copy_loop_never_aborts: "fst (copy_loop objs dst w) = None"
  by (induction objs arbitrary: w) (auto simp: truthy_def split: prod.splits)

lemma deleteS3DirectoryCommand_succeeds_when_listed:
  "success (fst (listAllS3ObjectsInDirectory k w)) \<Longrightarrow>
     fst (deleteS3DirectoryCommand k w) = Success True"
proof -
  assume s: "success (fst (listAllS3ObjectsInDirectory k w))"
  obtain r w1 where l: "listAllS3ObjectsInDirectory k w = (r, w1)"
    by (cases "listAllS3ObjectsInDirectory k w")
  with s have d: "data r \<noteq> None"
    by (auto simp: listAllS3ObjectsInDirectory_def Let_def Success_def Failure_def
             split: prod.splits sum.splits S3Output.splits)
  then obtain objs where o: "data r = Some objs" by blast
  obtain e w2 where dl: "delete_loop objs w1 = (e, w2)" by (cases "delete_loop objs w1")
  with delete_loop_never_aborts [of objs w1] have "e = None" by simp
  with l o dl s show ?thesis by (simp add: deleteS3DirectoryCommand_def)
qed

text \<open>
  Claim C1 says that the first child operation returning a failure result aborts the
  remaining children and is returned as the overall result. The code does not do that.
  In \<open>docs_world\<close> the delete of \<open>docs/b.txt\<close> fails, yet \<open>docs/c.txt\<close> is deleted after it and
  the directory delete returns \<open>Success(true)\<close>; in \<open>copy_world\<close> the copy of \<open>docs/a.txt\<close>
  fails, yet \<open>docs/b.txt\<close> is copied after it and the directory copy returns
  \<open>Success(true)\<close>.
\<close>

theorem directory_commands_ignore_child_failures:
  "fst (deleteS3ObjectCommand ''docs/b.txt''
          (docs_world\<lparr>objects := [(''docs/b.txt'', ''B''), (''docs/c.txt'', ''C'')],
                       requests := [ListObjectsV2Command ''docs/'' None None,
                                    DeleteObjectCommand ''docs/a.txt'']\<rparr>))
     = Failure ''Error deleting S3 object'' (Some (Error ''socket hang up''))
   \<and> deleteS3DirectoryCommand ''docs/'' docs_world =
       (Success True,
        docs_world\<lparr>objects := [(''docs/b.txt'', ''B'')],
                    requests := [ListObjectsV2Command ''docs/'' None None,
                                 DeleteObjectCommand ''docs/a.txt'',
                                 DeleteObjectCommand ''docs/b.txt'',
                                 DeleteObjectCommand ''docs/c.txt'']\<rparr>)
   \<and> copyS3DirectoryCommand ''docs/'' ''backup/'' copy_world =
       (Success True,
        copy_world\<lparr>objects := [(''docs/a.txt'', ''A''), (''docs/b.txt'', ''B''),
                                (''backup/b.txt'', ''B'')],
                    requests := [ListObjectsV2Command ''docs/'' None None,
                                 HeadObjectCommand ''backup/a.txt'',
                                 HeadObjectCommand ''backup/b.txt'',
                                 HeadObjectCommand ''backup/a.txt'',
                                 CopyObjectCommand ''docs/a.txt'' ''backup/a.txt'',
                                 HeadObjectCommand ''backup/b.txt'',
                                 CopyObjectCommand ''docs/b.txt'' ''backup/b.txt'']\<rparr>)"
  by (simp add: docs_world_def copy_world_def directory_run_defs)

section \<open>The lister of the directory commands\<close>

text \<open>
  Claim C2 says that the lister follows continuation tokens until none is returned, so
  that it returns the union of all pages. The code sends one request and returns its
  page. In \<open>paged_world\<close> the first page holds two of the three keys and comes with a
  continuation token; the page behind that token holds the third key; the lister returns
  the first page only, and a directory delete built on it leaves \<open>docs/c.txt\<close> in the bucket
  while returning \<open>Success(true)\<close>. The unused lister \<open>listAllObjects\<close> of the same file does
  follow the token and returns all three keys.
\<close>

theorem listAllS3ObjectsInDirectory_returns_first_page_only:
  "listAllS3ObjectsInDirectory ''docs/'' paged_world =
     (Success [\<lparr>Key = Some ''docs/a.txt''\<rparr>, \<lparr>Key = Some ''docs/b.txt''\<rparr>],
      paged_world\<lparr>requests := [ListObjectsV2Command ''docs/'' None None]\<rparr>)
   \<and> NextContinuationToken (list_page paged_world ''docs/'' None None) = Some 2
   \<and> Contents (list_page paged_world ''docs/'' None (Some 2)) = Some [\<lparr>Key = Some ''docs/c.txt''\<rparr>]
   \<and> NextContinuationToken (list_page paged_world ''docs/'' None (Some 2)) = None
   \<and> deleteS3DirectoryCommand ''docs/'' paged_world =
       (Success True,
        paged_world\<lparr>objects := [(''docs/c.txt'', ''C'')],
                     requests := [ListObjectsV2Command ''docs/'' None None,
                                  DeleteObjectCommand ''docs/a.txt'',
                                  DeleteObjectCommand ''docs/b.txt'']\<rparr>)
   \<and> listAllObjects 2 ''docs/'' paged_world =
       Some (Success [''docs/a.txt'', ''docs/b.txt'', ''docs/c.txt''],
             paged_world\<lparr>requests := [ListObjectsV2Command ''docs/'' None None,
                                          ListObjectsV2Command ''docs/'' None (Some 2)]\<rparr>)"
  by (simp add: paged_world_def directory_run_defs listAllObjects_def numeral_2_eq_2)

section \<open>The signed-URL cache\<close>


lemma first_signed_url:
  "getSignedUrlCommand 900 ''a.txt'' None 0 fresh_urls =
     (Success ''a.txt?sig=first'',
      fresh_urls\<lparr>signedUrlCache :=
                   (\<lambda>k. None)(''a.txt'' \<mapsto> \<lparr>url = ''a.txt?sig=first'', expiresAt = 900000\<rparr>),
                 sign_requests := [(''a.txt'', 900)]\<rparr>)"
  by (simp add: getSignedUrlCommand_def fresh_urls_def cache_hit_def)



text \<open>
  The comparison in the code is \<open>cached.expiresAt > now + expiresIn\<close>, a time in
  milliseconds against an expiry in seconds, where the comment announces a buffer of 10 s.
  With 5 s left, inside that buffer, the cached URL is still served.
\<close>

lemma cached_url_served_with_five_seconds_left:
  "getSignedUrlCommand 900 ''a.txt'' None 895000 after_first_call
     = (Success ''a.txt?sig=first'', after_first_call)"
  by (simp add: after_first_call_def first_signed_url)
     (simp add: getSignedUrlCommand_def fresh_urls_def cache_hit_def)

section \<open>Cancelling an upload\<close>

lemmas upload_defs =
  uploadMultipleFiles_def uploadSingleFile_def prepareUpload_def performUpload_def
  handleError_def updateFileStatus_def updateS3Objects_def cancelAllUploads_def cancelUpload_def
  handleFiles_def endsWith_def Success_def Failure_def ConvertFailure_def FileNameExists_def
  or_empty_def Let_def

text \<open>Whatever error ends the transfer, \<open>uploadSingleFile\<close> returns the same result.\<close>

lemma uploadSingleFile_same_result_for_every_error:
  "transfer env f = Some e \<Longrightarrow> transfer env' f = Some e' \<Longrightarrow> presign env = presign env' \<Longrightarrow>
     fst (uploadSingleFile env f overwrite st) = fst (uploadSingleFile env' f overwrite st)"
  by (auto simp: uploadSingleFile_def prepareUpload_def performUpload_def Let_def
           split: prod.splits option.splits)

text \<open>
  Claim C6 says that an aborted transfer surfaces as a cancelled condition, distinct from
  an error, and that the file ends in the state \<open>cancelled\<close>. The code does not do that.
  \<open>handleError\<close> recognises the cancellation, but \<open>performUpload\<close> drops what it returns, so
  \<open>uploadSingleFile\<close> returns the failure \<open>Upload failed\<close> for an aborted transfer as for a
  network error; and in a batch the file that was in flight when the user cancelled ends in
  the state \<open>error\<close> with that message, as it does after a network error.
\<close>

theorem cancelled_upload_ends_as_error:
  "transfer cancelling_env ''a.bin'' = Some CanceledError
   \<and> handleError CanceledError ''Unknown error'' = ''Upload cancelled''
   \<and> fst (uploadSingleFile cancelling_env ''a.bin'' False idle_upload) = Failure ''Upload failed'' None
   \<and> fst (uploadSingleFile failing_env ''a.bin'' False idle_upload) = Failure ''Upload failed'' None
   \<and> fileStatuses (cancelAllUploads one_file) =
       [\<lparr>theFile = ''a.bin'', progress = 0, status = Cancelled, errorText = None\<rparr>]
   \<and> fst (uploadMultipleFiles cancelling_env False one_file) = (0, 1)
   \<and> fileStatuses (snd (uploadMultipleFiles cancelling_env False one_file)) =
       [\<lparr>theFile = ''a.bin'', progress = 0, status = Errored, errorText = Some ''Upload failed''\<rparr>]
   \<and> fileStatuses (snd (uploadMultipleFiles failing_env False one_file)) =
       fileStatuses (snd (uploadMultipleFiles cancelling_env False one_file))"
  by (simp add: cancelling_env_def failing_env_def one_file_def idle_upload_def upload_defs)

end
